theory Spec2Isabelle
  imports Main "HOL-Library.Sublist"
begin

section \<open>Python objects as seen by \<^verbatim>\<open>lib/streamlit/type_util.py\<close>\<close>

text \<open>
  The module inspects an object only through its runtime type: the identity of the type,
  the type's \<^verbatim>\<open>__module__\<close>, \<^verbatim>\<open>__name__\<close>, \<^verbatim>\<open>__bases__\<close> and \<^verbatim>\<open>_fields\<close> attributes,
  and, for the exact built-in \<^verbatim>\<open>list\<close> and \<^verbatim>\<open>dict\<close>, the items it holds. The semantics
  is that of Python 3 (\<^verbatim>\<open>builtins\<close> is the module of the built-in types).

  A type object is identified by a \<open>type_id\<close>: the built-in types the source names or
  compares against, and \<open>ClassT n\<close> for every other type.

  Classes are ordinary ones: attribute lookup on a type, comparison of types, \<^verbatim>\<open>==\<close>
  and \<^verbatim>\<open>isinstance\<close> are those of \<^verbatim>\<open>type\<close>, \<^verbatim>\<open>object\<close> and the built-in base classes.
  Metaclasses and classes that override them (\<^verbatim>\<open>__eq__\<close>, \<^verbatim>\<open>__instancecheck__\<close>,
  \<^verbatim>\<open>__getattribute__\<close>) are outside the model.
\<close>

datatype type_id = ObjectT | StrT | ListT | TupleT | DictT | FunctionT | ClassT nat

text \<open>The exceptions that the code of the module can meet.\<close>

datatype pyerror = AttributeError | ImportError | TypeError

text \<open>
  \<^verbatim>\<open>__name__\<close> of a type is always a \<^verbatim>\<open>str\<close> (the setter of \<^verbatim>\<open>type.__name__\<close> enforces
  it), but \<^verbatim>\<open>__module__\<close> is an ordinary entry of the class dictionary. It need not
  hold a string: \<^verbatim>\<open>class X: __module__ = None\<close> is legal Python; \<open>ModStr m\<close> is a
  \<^verbatim>\<open>str\<close> value, \<open>ModNone\<close> the value \<^verbatim>\<open>None\<close> (values of other types are outside the
  model). And it may be absent: a class made by \<^verbatim>\<open>type('X', (), {})\<close> where the globals
  have no \<^verbatim>\<open>__name__\<close> has no such entry, and reading \<^verbatim>\<open>X.__module__\<close> raises
  \<^verbatim>\<open>AttributeError\<close>.
\<close>

datatype modattr = ModStr string | ModNone

text \<open>
  An object is an instance of exactly one of the built-in types \<^verbatim>\<open>str\<close>, \<^verbatim>\<open>list\<close>,
  \<^verbatim>\<open>tuple\<close>, \<^verbatim>\<open>dict\<close>, \<^verbatim>\<open>function\<close>, or an instance of any other class (a subclass of a
  built-in type, a number, a chart of a plotting library, \<dots>). A \<^verbatim>\<open>dict\<close> is the list of
  its items in iteration order. An instance of another class carries what it inherits
  from a built-in base: the characters of an instance of a subclass of \<^verbatim>\<open>str\<close>, the
  items of an instance of a subclass of \<^verbatim>\<open>list\<close> or \<^verbatim>\<open>tuple\<close>, nothing otherwise.

  A class records its identity, the entry \<^verbatim>\<open>__module__\<close> of its dictionary (\<open>None\<close> when
  there is no entry), \<^verbatim>\<open>__name__\<close>, \<^verbatim>\<open>__bases__\<close>, the rest of its method resolution
  order (its proper ancestors) and the value of its \<^verbatim>\<open>_fields\<close> attribute, \<open>None\<close> when
  the lookup finds no such attribute.
\<close>

datatype pyobj =
    PyStr string
  | PyList "pyobj list"
  | PyTuple "pyobj list"
  | PyDict "(pyobj \<times> pyobj) list"
  | PyFunction
  | PyInstance pyclass payload
and payload =
    Opaque
  | Chars string
  | Items "pyobj list"
and pyclass =
    PyClass (cid: nat) (cmodule: "modattr option") (cname: string) (cbases: "type_id list")
      (cancestors: "type_id list") (cfields: "pyobj option")

text \<open>\<^verbatim>\<open>type(obj)\<close>, as the identity of the type object.\<close>

fun type_ident :: "pyobj \<Rightarrow> type_id" where
  "type_ident (PyStr s) = StrT"
| "type_ident (PyList xs) = ListT"
| "type_ident (PyTuple xs) = TupleT"
| "type_ident (PyDict kvs) = DictT"
| "type_ident PyFunction = FunctionT"
| "type_ident (PyInstance c v) = ClassT (cid c)"

text \<open>\<^verbatim>\<open>type(obj).__module__\<close>: the lookup raises when the class has no such entry.\<close>

fun type_module :: "pyobj \<Rightarrow> pyerror + modattr" where
  "type_module (PyInstance c v) =
     (case cmodule c of None \<Rightarrow> Inl AttributeError | Some m \<Rightarrow> Inr m)"
| "type_module obj = Inr (ModStr ''builtins'')"

text \<open>\<^verbatim>\<open>type(obj).__name__\<close>\<close>

fun type_name :: "pyobj \<Rightarrow> string" where
  "type_name (PyStr s) = ''str''"
| "type_name (PyList xs) = ''list''"
| "type_name (PyTuple xs) = ''tuple''"
| "type_name (PyDict kvs) = ''dict''"
| "type_name PyFunction = ''function''"
| "type_name (PyInstance c v) = cname c"

text \<open>\<^verbatim>\<open>type(obj).__bases__\<close>: every built-in type here derives from \<^verbatim>\<open>object\<close> alone.\<close>

fun type_bases :: "pyobj \<Rightarrow> type_id list" where
  "type_bases (PyInstance c v) = cbases c"
| "type_bases obj = [ObjectT]"

text \<open>\<^verbatim>\<open>type(obj).__mro__\<close>: the type itself, then its ancestors.\<close>

fun type_mro :: "pyobj \<Rightarrow> type_id list" where
  "type_mro (PyInstance c v) = ClassT (cid c) # cancestors c"
| "type_mro obj = [type_ident obj, ObjectT]"

text \<open>
  \<^verbatim>\<open>getattr(type(obj), "_fields", None)\<close>: the built-in types have no such attribute,
  so the default \<^verbatim>\<open>None\<close> is returned for them.
\<close>

fun type_fields :: "pyobj \<Rightarrow> pyobj option" where
  "type_fields (PyInstance c v) = cfields c"
| "type_fields obj = None"

text \<open>\<^verbatim>\<open>isinstance(obj, T)\<close> for a class \<open>T\<close>: \<open>T\<close> occurs in the MRO of \<^verbatim>\<open>type(obj)\<close>.\<close>

definition isinstance :: "pyobj \<Rightarrow> type_id \<Rightarrow> bool" where
  "isinstance obj T = (T \<in> set (type_mro obj))"

text \<open>
  The items that iterating over a list, a tuple or an instance of a subclass of one of
  them yields, and \<^verbatim>\<open>len\<close> of it is their number. The source iterates over nothing else.
\<close>

fun iter_items :: "pyobj \<Rightarrow> pyobj list" where
  "iter_items (PyList xs) = xs"
| "iter_items (PyTuple xs) = xs"
| "iter_items (PyInstance c (Items xs)) = xs"
| "iter_items obj = []"

text \<open>\<^verbatim>\<open>obj.keys()\<close> and \<^verbatim>\<open>obj.values()\<close> of a \<^verbatim>\<open>dict\<close>.\<close>

fun dict_keys :: "pyobj \<Rightarrow> pyobj list" where
  "dict_keys (PyDict kvs) = map fst kvs"
| "dict_keys obj = []"

fun dict_values :: "pyobj \<Rightarrow> pyobj list" where
  "dict_values (PyDict kvs) = map snd kvs"
| "dict_values obj = []"

text \<open>
  The characters of an object that is a \<^verbatim>\<open>str\<close>: an instance of \<^verbatim>\<open>str\<close> itself or of a
  subclass of it.
\<close>

fun str_value :: "pyobj \<Rightarrow> string option" where
  "str_value (PyStr t) = Some t"
| "str_value (PyInstance c (Chars t)) = Some t"
| "str_value obj = None"

section \<open>Compiled regular expressions\<close>

text \<open>
  The two patterns of the module use literals, \<^verbatim>\<open>.\<close>, \<^verbatim>\<open>\d\<close>, \<^verbatim>\<open>\w\<close>, the postfix
  operators \<^verbatim>\<open>*\<close> and \<^verbatim>\<open>+\<close> on a single character class, and the anchors \<^verbatim>\<open>^\<close> and
  \<^verbatim>\<open>$\<close>. A compiled pattern is the list of these items.

  A \<open>char\<close> stands for a code point below 256, read by \<open>of_char\<close>; names with other
  code points are outside the model. The patterns are \<^verbatim>\<open>str\<close> patterns, so the classes
  are the Unicode ones: among these code points \<^verbatim>\<open>\d\<close> (decimal digits) matches
  \<^verbatim>\<open>0\<close>-\<^verbatim>\<open>9\<close> only, and \<^verbatim>\<open>\w\<close> (alphanumerics and the underscore) matches the ASCII
  letters and digits, the underscore, and the letters and numeric characters of the
  upper half.
\<close>

datatype atom = Lit char | AnyChar | Digit | WordChar

datatype item = Bol | Eol | One atom | Star atom | Plus atom

type_synonym regex = "item list"

definition newline :: char where
  "newline = CHR 0x0A"

definition in_range :: "nat \<Rightarrow> nat \<Rightarrow> char \<Rightarrow> bool" where
  "in_range lo hi c = (lo \<le> of_char c \<and> (of_char c :: nat) \<le> hi)"

definition is_digit :: "char \<Rightarrow> bool" where
  "is_digit c = in_range 48 57 c"

definition is_word :: "char \<Rightarrow> bool" where
  "is_word c =
     (in_range 48 57 c \<or> in_range 65 90 c \<or> in_range 95 95 c \<or> in_range 97 122 c
      \<or> in_range 170 170 c \<or> in_range 178 179 c \<or> in_range 181 181 c
      \<or> in_range 185 186 c \<or> in_range 188 190 c \<or> in_range 192 214 c
      \<or> in_range 216 246 c \<or> in_range 248 255 c)"

fun atom_ok :: "atom \<Rightarrow> char \<Rightarrow> bool" where
  "atom_ok (Lit a) c = (c = a)"
| "atom_ok AnyChar c = (c \<noteq> newline)"
| "atom_ok Digit c = is_digit c"
| "atom_ok WordChar c = is_word c"

text \<open>
  \<open>rmatch r s b\<close>: some prefix of \<open>s\<close> matches \<open>r\<close>; \<open>b\<close> says that \<open>s\<close> starts at
  position 0 of the subject. Backtracking finds a match exactly when one exists, so the
  greedy order of \<^verbatim>\<open>*\<close> does not show in the result. Without the \<^verbatim>\<open>MULTILINE\<close> flag,
  \<^verbatim>\<open>$\<close> matches at the end of the subject and just before a newline that ends it.
\<close>

fun rmatch :: "regex \<Rightarrow> string \<Rightarrow> bool \<Rightarrow> bool" where
  "rmatch [] s b = True"
| "rmatch (Bol # r) s b = (b \<and> rmatch r s b)"
| "rmatch (Eol # r) s b = ((s = [] \<or> s = [newline]) \<and> rmatch r s b)"
| "rmatch (One a # r) [] b = False"
| "rmatch (One a # r) (c # s) b = (atom_ok a c \<and> rmatch r s False)"
| "rmatch (Plus a # r) [] b = False"
| "rmatch (Plus a # r) (c # s) b = (atom_ok a c \<and> rmatch (Star a # r) s False)"
| "rmatch (Star a # r) [] b = rmatch r [] b"
| "rmatch (Star a # r) (c # s) b =
     ((atom_ok a c \<and> rmatch (Star a # r) s False) \<or> rmatch r (c # s) b)"

text \<open>\<^verbatim>\<open>pattern.match(s) is not None\<close>\<close>

definition re_match :: "regex \<Rightarrow> string \<Rightarrow> bool" where
  "re_match r s = rmatch r s True"

definition lits :: "string \<Rightarrow> regex" where
  "lits s = map (\<lambda>c. One (Lit c)) s"

section \<open>\<^verbatim>\<open>is_type\<close>\<close>

text \<open>
  Modelled from the spec: \<^verbatim>\<open>string_types\<close> is bound by \<^verbatim>\<open>setup_2_3_shims(globals())\<close>
  of \<^verbatim>\<open>streamlit.compatibility\<close>, which is not among the sources. The spec reads the
  test \<^verbatim>\<open>isinstance(fqn_type_pattern, string_types)\<close> as "pattern is a literal string";
  the other patterns are compiled regular expressions.
\<close>

datatype pattern = PatStr string | PatRe regex

text \<open>\<^verbatim>\<open>"%s" % v\<close> for the value of \<^verbatim>\<open>__module__\<close>.\<close>

fun format_s :: "modattr \<Rightarrow> string" where
  "format_s (ModStr m) = m"
| "format_s ModNone = ''None''"

text \<open>
  The first four statements of \<^verbatim>\<open>is_type\<close>: \<^verbatim>\<open>module = the_type.__module__\<close> may raise,
  then \<^verbatim>\<open>actual_fqn = "%s.%s" % (module, name)\<close>.
\<close>

definition actual_fqn :: "pyobj \<Rightarrow> pyerror + string" where
  "actual_fqn obj =
     (case type_module obj of
        Inl e \<Rightarrow> Inl e
      | Inr module \<Rightarrow> Inr (format_s module @ ''.'' @ type_name obj))"

fun is_type :: "pyobj \<Rightarrow> pattern \<Rightarrow> pyerror + bool" where
  "is_type obj (PatStr fqn_type_pattern) =
     (case actual_fqn obj of
        Inl e \<Rightarrow> Inl e
      | Inr fqn \<Rightarrow> Inr (fqn_type_pattern = fqn))"
| "is_type obj (PatRe fqn_type_pattern) =
     (case actual_fqn obj of
        Inl e \<Rightarrow> Inl e
      | Inr fqn \<Rightarrow> Inr (re_match fqn_type_pattern fqn))"

text \<open>
  \<^verbatim>\<open>a or b\<close>: \<open>a\<close> is evaluated first; its exception propagates, its truth is the
  result, and only otherwise \<open>b\<close> is evaluated.
\<close>

fun py_or :: "pyerror + bool \<Rightarrow> pyerror + bool \<Rightarrow> pyerror + bool" where
  "py_or (Inl e) b = Inl e"
| "py_or (Inr a) b = (if a then Inr True else b)"

section \<open>Results, effects and the interpreter state\<close>

text \<open>
  What a call returns is a Python value: a \<^verbatim>\<open>bool\<close>, or \<^verbatim>\<open>None\<close> when the body ends
  without a \<^verbatim>\<open>return\<close>.
\<close>

datatype pyvalue = PyBool bool | PyNone

text \<open>
  Of a module, the source reads the attribute \<^verbatim>\<open>Expr\<close> only (of the module that
  \<^verbatim>\<open>import sympy\<close> binds): it is missing, or something that is not a class, or a class.
\<close>

datatype pyattr = Missing | NonClass | Class type_id

datatype pymodule = PyModule (Expr: pyattr)

text \<open>
  What the import system does when it is asked for \<^verbatim>\<open>sympy\<close> while no such module is
  loaded: \<open>imported\<close> is the module it finds and executes, \<open>None\<close> when it finds none
  or executing it raises; \<open>entered\<close> are the other modules (submodules, dependencies)
  that this enters into \<^verbatim>\<open>sys.modules\<close> on the way, also when the import fails in the
  end.
\<close>

datatype import_run =
  ImportRun (imported: "pymodule option") (entered: "(string \<times> pymodule) list")

text \<open>
  The part of the interpreter state that \<^verbatim>\<open>import sympy\<close> reads and writes:
  \<^verbatim>\<open>sys.modules\<close>, and the behaviour of the import system, which is the same each time
  it is asked (the installation does not change between calls).
\<close>

record interp =
  sys_modules :: "string \<rightharpoonup> pymodule"
  finder_sympy :: import_run

text \<open>
  \<^verbatim>\<open>import sympy\<close>: a loaded module is returned as it is. Otherwise the import system
  runs: the modules it enters are added to \<^verbatim>\<open>sys.modules\<close> (entries that are there
  already are kept); then \<^verbatim>\<open>sympy\<close> is entered and returned, or, when the import fails,
  \<^verbatim>\<open>sympy\<close> is left out of \<^verbatim>\<open>sys.modules\<close> and the statement raises.
\<close>

definition import_sympy :: "interp \<Rightarrow> (pyerror + pymodule) \<times> interp" where
  "import_sympy st =
     (case sys_modules st ''sympy'' of
        Some m \<Rightarrow> (Inr m, st)
      | None \<Rightarrow>
          (let mods = map_of (entered (finder_sympy st)) ++ sys_modules st in
           case imported (finder_sympy st) of
             None \<Rightarrow> (Inl ImportError, st\<lparr>sys_modules := mods(''sympy'' := None)\<rparr>)
           | Some m \<Rightarrow> (Inr m, st\<lparr>sys_modules := mods(''sympy'' \<mapsto> m)\<rparr>)))"

text \<open>\<^verbatim>\<open>isinstance(obj, sympy.Expr)\<close>, with the attribute lookup that precedes it.\<close>

fun isinstance_attr :: "pyobj \<Rightarrow> pyattr \<Rightarrow> pyerror + bool" where
  "isinstance_attr obj Missing = Inl AttributeError"
| "isinstance_attr obj NonClass = Inl TypeError"
| "isinstance_attr obj (Class T) = Inr (isinstance obj T)"

text \<open>
  A call of a predicate receives the interpreter state and a reference to its argument.
  It raises or returns a value, and it leaves the argument object and the state as its
  statements have made them.
\<close>

record outcome =
  result :: "pyerror + pyvalue"
  arg_after :: pyobj
  state_after :: interp

section \<open>\<^verbatim>\<open>is_sympy_expession\<close>\<close>

text \<open>\<^verbatim>\<open>_SYMPY_RE = re.compile(r"^sympy.*$")\<close>\<close>

definition SYMPY_RE :: regex where
  "SYMPY_RE = [Bol] @ lits ''sympy'' @ [Star AnyChar, Eol]"

text \<open>
  The call of \<^verbatim>\<open>is_type\<close> stands before the \<^verbatim>\<open>try\<close>: its exception propagates. The bare
  \<^verbatim>\<open>except:\<close> turns every exception of the \<^verbatim>\<open>try\<close> body into \<^verbatim>\<open>return False\<close>. When the
  body ends normally and the \<^verbatim>\<open>isinstance\<close> test is false, no \<^verbatim>\<open>return\<close> statement is
  reached and the call returns \<^verbatim>\<open>None\<close>.
\<close>

definition is_sympy_expession :: "interp \<Rightarrow> pyobj \<Rightarrow> outcome" where
  "is_sympy_expession st obj =
     (case is_type obj (PatRe SYMPY_RE) of
        Inl e \<Rightarrow> \<lparr>result = Inl e, arg_after = obj, state_after = st\<rparr>
      | Inr matches \<Rightarrow>
          if \<not> matches then \<lparr>result = Inr (PyBool False), arg_after = obj, state_after = st\<rparr>
          else
            (case import_sympy st of
               (Inl e, st') \<Rightarrow> \<lparr>result = Inr (PyBool False), arg_after = obj, state_after = st'\<rparr>
             | (Inr sympy, st') \<Rightarrow>
                 (case isinstance_attr obj (Expr sympy) of
                    Inl e \<Rightarrow> \<lparr>result = Inr (PyBool False), arg_after = obj, state_after = st'\<rparr>
                  | Inr b \<Rightarrow>
                      if b then \<lparr>result = Inr (PyBool True), arg_after = obj, state_after = st'\<rparr>
                      else \<lparr>result = Inr PyNone, arg_after = obj, state_after = st'\<rparr>)))"

section \<open>\<^verbatim>\<open>is_altair_chart\<close>, \<^verbatim>\<open>is_keras_model\<close>, \<^verbatim>\<open>is_graphviz_chart\<close>, \<^verbatim>\<open>is_function\<close>\<close>



definition is_keras_model :: "interp \<Rightarrow> pyobj \<Rightarrow> outcome" where
  "is_keras_model st obj =
     \<lparr>result = map_sum id PyBool
        (py_or (is_type obj (PatStr ''keras.engine.sequential.Sequential''))
        (py_or (is_type obj (PatStr ''keras.engine.training.Model''))
        (py_or (is_type obj (PatStr ''tensorflow.python.keras.engine.sequential.Sequential''))
               (is_type obj (PatStr ''tensorflow.python.keras.engine.training.Model''))))),
      arg_after = obj, state_after = st\<rparr>"




section \<open>\<^verbatim>\<open>is_plotly_chart\<close>\<close>

text \<open>
  The builtins \<^verbatim>\<open>all\<close> and \<^verbatim>\<open>any\<close> over a generator: the items are tested in order, the
  first item that decides the result ends the loop, and an exception of a test
  propagates.
\<close>

fun py_all :: "('a \<Rightarrow> pyerror + bool) \<Rightarrow> 'a list \<Rightarrow> pyerror + bool" where
  "py_all f [] = Inr True"
| "py_all f (x # xs) =
     (case f x of Inl e \<Rightarrow> Inl e | Inr b \<Rightarrow> if b then py_all f xs else Inr False)"

fun py_any :: "('a \<Rightarrow> pyerror + bool) \<Rightarrow> 'a list \<Rightarrow> pyerror + bool" where
  "py_any f [] = Inr False"
| "py_any f (x # xs) =
     (case f x of Inl e \<Rightarrow> Inl e | Inr b \<Rightarrow> if b then Inr True else py_any f xs)"

text \<open>
  \<^verbatim>\<open>_is_plotly_obj\<close> (an Isabelle name cannot start with an underscore): reading
  \<^verbatim>\<open>__module__\<close> may raise; then the method \<^verbatim>\<open>startswith\<close> is looked up on its value, and
  \<^verbatim>\<open>None\<close> has no such attribute.
\<close>

definition is_plotly_obj :: "pyobj \<Rightarrow> pyerror + bool" where
  "is_plotly_obj obj =
     (case type_module obj of
        Inl e \<Rightarrow> Inl e
      | Inr (ModStr m) \<Rightarrow> Inr (prefix ''plotly.graph_objs'' m)
      | Inr ModNone \<Rightarrow> Inl AttributeError)"

text \<open>\<^verbatim>\<open>_is_list_of_plotly_objs\<close>\<close>

definition is_list_of_plotly_objs :: "pyobj \<Rightarrow> pyerror + bool" where
  "is_list_of_plotly_objs obj =
     (if type_ident obj \<noteq> ListT then Inr False
      else if length (iter_items obj) = 0 then Inr False
      else py_all is_plotly_obj (iter_items obj))"

text \<open>
  Modelled from the spec: \<^verbatim>\<open>dict_types\<close> is bound by \<^verbatim>\<open>setup_2_3_shims(globals())\<close> of
  \<^verbatim>\<open>streamlit.compatibility\<close>, which is not among the sources. The spec reads the test
  \<^verbatim>\<open>type(obj) not in dict_types\<close> as "object is a mapping": the built-in \<^verbatim>\<open>dict\<close>.
\<close>

definition dict_types :: "type_id list" where
  "dict_types = [DictT]"

text \<open>
  \<^verbatim>\<open>s == k\<close> for a \<^verbatim>\<open>str\<close> literal \<open>s\<close>: equal are the objects that are a \<^verbatim>\<open>str\<close> (of
  \<^verbatim>\<open>str\<close> itself or of a subclass, which inherits the comparison) with the same
  characters. \<^verbatim>\<open>k in [s1, ..., sn]\<close> compares \<open>k\<close> with each element.
\<close>

definition py_eq_str :: "pyobj \<Rightarrow> string \<Rightarrow> bool" where
  "py_eq_str k s = (str_value k = Some s)"

definition py_in :: "pyobj \<Rightarrow> string list \<Rightarrow> bool" where
  "py_in k ss = list_ex (py_eq_str k) ss"

text \<open>\<^verbatim>\<open>_is_probably_plotly_dict\<close>\<close>

definition is_probably_plotly_dict :: "pyobj \<Rightarrow> pyerror + bool" where
  "is_probably_plotly_dict obj =
     (if type_ident obj \<notin> set dict_types then Inr False
      else if length (dict_keys obj) = 0 then Inr False
      else if list_ex (\<lambda>k. \<not> py_in k [''config'', ''data'', ''frames'', ''layout'']) (dict_keys obj)
        then Inr False
      else
        (case py_any is_plotly_obj (dict_values obj) of
           Inl e \<Rightarrow> Inl e
         | Inr b \<Rightarrow>
             if b then Inr True
             else
               (case py_any is_list_of_plotly_objs (dict_values obj) of
                  Inl e \<Rightarrow> Inl e
                | Inr b' \<Rightarrow> if b' then Inr True else Inr False)))"

definition is_plotly_chart :: "interp \<Rightarrow> pyobj \<Rightarrow> outcome" where
  "is_plotly_chart st obj =
     \<lparr>result = map_sum id PyBool
        (py_or (is_type obj (PatStr ''plotly.graph_objs._figure.Figure''))
        (py_or (is_list_of_plotly_objs obj)
               (is_probably_plotly_dict obj))),
      arg_after = obj, state_after = st\<rparr>"

section \<open>\<^verbatim>\<open>is_namedtuple\<close>\<close>

text \<open>
  \<^verbatim>\<open>f = getattr(t, "_fields", None)\<close> is \<open>type_fields x\<close>; \<^verbatim>\<open>isinstance(f, tuple)\<close> is
  false for \<^verbatim>\<open>None\<close>.
\<close>

definition is_namedtuple :: "interp \<Rightarrow> pyobj \<Rightarrow> outcome" where
  "is_namedtuple st x =
     (let b = type_bases x in
      if length b \<noteq> 1 \<or> hd b \<noteq> TupleT
      then \<lparr>result = Inr (PyBool False), arg_after = x, state_after = st\<rparr>
      else
        (case type_fields x of
           None \<Rightarrow> \<lparr>result = Inr (PyBool False), arg_after = x, state_after = st\<rparr>
         | Some f \<Rightarrow>
             if \<not> isinstance f TupleT
             then \<lparr>result = Inr (PyBool False), arg_after = x, state_after = st\<rparr>
             else \<lparr>result = Inr (PyBool (list_all (\<lambda>n. type_name n = ''str'') (iter_items f))),
                   arg_after = x, state_after = st\<rparr>))"

section \<open>The predicates as a caller sees them\<close>



section \<open>Predicates of the specification\<close>


definition has_str_module :: "pyobj \<Rightarrow> bool" where
  "has_str_module obj =
     (case type_module obj of Inl e \<Rightarrow> False | Inr (ModStr m) \<Rightarrow> True | Inr ModNone \<Rightarrow> False)"

text \<open>"The module name of its type starts with \<^verbatim>\<open>plotly.graph_objs\<close>":\<close>

definition in_plotly_namespace :: "pyobj \<Rightarrow> bool" where
  "in_plotly_namespace obj =
     (case type_module obj of
        Inl e \<Rightarrow> False
      | Inr (ModStr m) \<Rightarrow> prefix ''plotly.graph_objs'' m
      | Inr ModNone \<Rightarrow> False)"

text \<open>"A non-empty list all of whose elements satisfy that check":\<close>

definition list_of_plotly :: "pyobj \<Rightarrow> bool" where
  "list_of_plotly v =
     (type_ident v = ListT \<and> iter_items v \<noteq> [] \<and> list_all in_plotly_namespace (iter_items v))"

text \<open>
  Every object that \<^verbatim>\<open>is_plotly_chart\<close> may pass to \<^verbatim>\<open>_is_plotly_obj\<close> has a type with a
  string as its \<^verbatim>\<open>__module__\<close>: the elements of a list; the values of a dict and the
  elements of its list values.
\<close>

fun str_modules_in_list :: "pyobj \<Rightarrow> bool" where
  "str_modules_in_list (PyList xs) = list_all has_str_module xs"
| "str_modules_in_list obj = True"

fun plotly_safe :: "pyobj \<Rightarrow> bool" where
  "plotly_safe (PyList xs) = list_all has_str_module xs"
| "plotly_safe (PyDict kvs) =
     list_all (\<lambda>v. has_str_module v \<and> str_modules_in_list v) (map snd kvs)"
| "plotly_safe obj = True"

section \<open>Auxiliary facts\<close>

subsection \<open>The sympy pattern\<close>

lemma rmatch_lits_prefix: "rmatch (lits p @ r) s b \<Longrightarrow> prefix p s"
proof (induction p arbitrary: s b)
  case Nil
  then show ?case by simp
next
  case (Cons a p)
  then show ?case by (cases s) (auto simp: lits_def)
qed

lemma sympy_re_prefix: "re_match SYMPY_RE s \<Longrightarrow> prefix ''sympy'' s"
  using rmatch_lits_prefix [of "''sympy''" "[Star AnyChar, Eol]" s True]
  by (simp add: re_match_def SYMPY_RE_def)

subsection \<open>\<^verbatim>\<open>all\<close> and \<^verbatim>\<open>any\<close> when no test raises\<close>

lemma py_all_total:
  "list_all (\<lambda>x. \<exists>b. f x = Inr b) xs \<Longrightarrow> py_all f xs = Inr (list_all (\<lambda>x. f x = Inr True) xs)"
  by (induction xs) auto

lemma py_any_total:
  "list_all (\<lambda>x. \<exists>b. f x = Inr b) xs \<Longrightarrow> py_any f xs = Inr (list_ex (\<lambda>x. f x = Inr True) xs)"
  by (induction xs) auto

lemma is_plotly_obj_str:
  "has_str_module x \<Longrightarrow> is_plotly_obj x = Inr (in_plotly_namespace x)"
  by (simp add: has_str_module_def is_plotly_obj_def in_plotly_namespace_def
      split: sum.splits modattr.splits)

lemma in_plotly_namespace_str: "in_plotly_namespace x \<Longrightarrow> has_str_module x"
  by (simp add: has_str_module_def in_plotly_namespace_def split: sum.splits modattr.splits)

lemma py_all_plotly_str:
  assumes "list_all has_str_module xs"
  shows "py_all is_plotly_obj xs = Inr (list_all in_plotly_namespace xs)"
proof -
  have t: "list_all (\<lambda>x. \<exists>b. is_plotly_obj x = Inr b) xs"
    using assms by (induction xs) (auto simp: is_plotly_obj_str)
  have "list_all (\<lambda>x. is_plotly_obj x = Inr True) xs = list_all in_plotly_namespace xs"
    using assms by (induction xs) (auto simp: is_plotly_obj_str)
  with py_all_total [OF t] show ?thesis by simp
qed

lemma py_any_plotly_str:
  assumes "list_all has_str_module xs"
  shows "py_any is_plotly_obj xs = Inr (list_ex in_plotly_namespace xs)"
proof -
  have t: "list_all (\<lambda>x. \<exists>b. is_plotly_obj x = Inr b) xs"
    using assms by (induction xs) (auto simp: is_plotly_obj_str)
  have "list_ex (\<lambda>x. is_plotly_obj x = Inr True) xs = list_ex in_plotly_namespace xs"
    using assms by (induction xs) (auto simp: is_plotly_obj_str)
  with py_any_total [OF t] show ?thesis by simp
qed

lemma not_list_not_list_of_plotly:
  "type_ident obj \<noteq> ListT \<Longrightarrow> is_list_of_plotly_objs obj = Inr False"
  by (simp add: is_list_of_plotly_objs_def)

lemma is_list_of_plotly_objs_str:
  assumes "str_modules_in_list v"
  shows "is_list_of_plotly_objs v = Inr (list_of_plotly v)"
proof (cases v)
  case (PyList xs)
  with assms have "list_all has_str_module xs" by simp
  from py_all_plotly_str [OF this] PyList show ?thesis
    by (simp add: is_list_of_plotly_objs_def list_of_plotly_def)
qed (simp_all add: is_list_of_plotly_objs_def list_of_plotly_def)

lemma py_any_list_of_plotly_str:
  assumes "list_all str_modules_in_list vs"
  shows "py_any is_list_of_plotly_objs vs = Inr (list_ex list_of_plotly vs)"
proof -
  have t: "list_all (\<lambda>x. \<exists>b. is_list_of_plotly_objs x = Inr b) vs"
    using assms by (induction vs) (auto simp: is_list_of_plotly_objs_str)
  have "list_ex (\<lambda>x. is_list_of_plotly_objs x = Inr True) vs = list_ex list_of_plotly vs"
    using assms by (induction vs) (auto simp: is_list_of_plotly_objs_str)
  with py_any_total [OF t] show ?thesis by simp
qed

subsection \<open>\<^verbatim>\<open>is_plotly_chart\<close> by the kind of object\<close>

lemma builtin_fqn:
  "actual_fqn (PyStr s) = Inr ''builtins.str''"
  "actual_fqn (PyList xs) = Inr ''builtins.list''"
  "actual_fqn (PyTuple xs) = Inr ''builtins.tuple''"
  "actual_fqn (PyDict kvs) = Inr ''builtins.dict''"
  "actual_fqn PyFunction = Inr ''builtins.function''"
  by (simp_all add: actual_fqn_def)

lemma is_probably_plotly_dict_str:
  assumes "list_all (\<lambda>v. has_str_module v \<and> str_modules_in_list v) (map snd kvs)"
  shows "is_probably_plotly_dict (PyDict kvs) =
     Inr (kvs \<noteq> [] \<and> list_all (\<lambda>k. py_in k [''config'', ''data'', ''frames'', ''layout'']) (map fst kvs)
          \<and> (list_ex in_plotly_namespace (map snd kvs) \<or> list_ex list_of_plotly (map snd kvs)))"
proof -
  have a: "list_all has_str_module (map snd kvs)"
    using assms by (induction kvs) auto
  have b: "list_all str_modules_in_list (map snd kvs)"
    using assms by (induction kvs) auto
  have c: "list_ex (\<lambda>k. \<not> py_in k ss) ks = (\<not> list_all (\<lambda>k. py_in k ss) ks)" for ss ks
    by (induction ks) auto
  show ?thesis
    unfolding is_probably_plotly_dict_def
    by (simp add: py_any_plotly_str [OF a] py_any_list_of_plotly_str [OF b] c dict_types_def)
qed

lemma instance_plotly:
  "result (is_plotly_chart st (PyInstance c v)) =
     (case actual_fqn (PyInstance c v) of
        Inl e \<Rightarrow> Inl e
      | Inr s \<Rightarrow> Inr (PyBool (s = ''plotly.graph_objs._figure.Figure'')))"
  by (auto simp: is_plotly_chart_def is_list_of_plotly_objs_def is_probably_plotly_dict_def
      dict_types_def split: sum.splits)

lemma tuple_not_plotly: "result (is_plotly_chart st (PyTuple xs)) = Inr (PyBool False)"
  by (simp add: is_plotly_chart_def is_list_of_plotly_objs_def is_probably_plotly_dict_def
      dict_types_def builtin_fqn)



lemma list_plotly_str:
  "list_all has_str_module xs \<Longrightarrow>
   result (is_plotly_chart st (PyList xs)) = Inr (PyBool (xs \<noteq> [] \<and> list_all in_plotly_namespace xs))"
  by (simp add: is_plotly_chart_def is_list_of_plotly_objs_def is_probably_plotly_dict_def
      dict_types_def builtin_fqn py_all_plotly_str)

lemma dict_plotly:
  "result (is_plotly_chart st (PyDict kvs)) = map_sum id PyBool (is_probably_plotly_dict (PyDict kvs))"
  by (simp add: is_plotly_chart_def is_list_of_plotly_objs_def builtin_fqn)


lemma py_in_allowed:
  "py_in k [''config'', ''data'', ''frames'', ''layout''] =
     (str_value k = Some ''config'' \<or> str_value k = Some ''data'' \<or> str_value k = Some ''frames''
      \<or> str_value k = Some ''layout'')"
  by (auto simp: py_in_def py_eq_str_def)

text \<open>
  A key of a subclass of \<^verbatim>\<open>str\<close> is equal to the string of its characters, as in
  \<^verbatim>\<open>{MyStr('data'): [Scatter()]}\<close>.
\<close>

lemma str_subclass_key_allowed:
  "result (is_plotly_chart st
     (PyDict [(PyInstance (PyClass 8 (Some (ModStr ''__main__'')) ''MyStr'' [StrT] [StrT, ObjectT] None)
                 (Chars ''data''),
               PyList [PyInstance (PyClass 1 (Some (ModStr ''plotly.graph_objs._scatter'')) ''Scatter''
                 [ObjectT] [ObjectT] None) Opaque])]))
   = Inr (PyBool True)"
  by (simp add: dict_plotly is_probably_plotly_dict_str has_str_module_def py_in_allowed
      list_of_plotly_def in_plotly_namespace_def)

subsection \<open>\<^verbatim>\<open>is_namedtuple\<close>\<close>

lemma namedtuple_result:
  "result (is_namedtuple st x) =
     Inr (PyBool (type_bases x = [TupleT]
        \<and> (\<exists>f. type_fields x = Some f \<and> isinstance f TupleT
              \<and> list_all (\<lambda>n. type_name n = ''str'') (iter_items f))))"
proof -
  have "(length b \<noteq> 1 \<or> hd b \<noteq> TupleT) = (b \<noteq> [TupleT])" for b :: "type_id list"
    by (cases b) auto
  then show ?thesis
    by (auto simp: is_namedtuple_def Let_def split: option.splits)
qed


subsection \<open>Calls that return\<close>










lemma sympy_falls_through:
  "is_type obj (PatRe SYMPY_RE) = Inr True \<Longrightarrow> sys_modules st ''sympy'' = Some m \<Longrightarrow>
   Expr m = Class T \<Longrightarrow> \<not> isinstance obj T \<Longrightarrow>
   is_sympy_expession st obj = \<lparr>result = Inr PyNone, arg_after = obj, state_after = st\<rparr>"
  by (simp add: is_sympy_expession_def import_sympy_def)

subsection \<open>Calls in sequence\<close>







section \<open>The claims\<close>

text \<open>
  C1. The claim: whenever the FQN passes the prefilter, \<^verbatim>\<open>is_sympy_expession\<close> returns a
  boolean, \<^verbatim>\<open>False\<close> when sympy is loaded and the \<^verbatim>\<open>isinstance\<close> test is false. The code
  has no \<^verbatim>\<open>return\<close> on that path. With sympy loaded, \<^verbatim>\<open>sympy.Interval(0, 1)\<close> (a
  \<^verbatim>\<open>Basic\<close> that is not an \<^verbatim>\<open>Expr\<close>; here \<^verbatim>\<open>Expr\<close> is class 0) makes the call return
  \<^verbatim>\<open>None\<close>.
\<close>

theorem sympy_non_expression_returns_none:
  "is_sympy_expession
     \<lparr>sys_modules = [''sympy'' \<mapsto> PyModule (Class (ClassT 0))],
      finder_sympy = ImportRun (Some (PyModule (Class (ClassT 0)))) []\<rparr>
     (PyInstance (PyClass 7 (Some (ModStr ''sympy.sets.sets'')) ''Interval''
        [ClassT 6] [ClassT 6, ClassT 5, ObjectT] None) Opaque)
   = \<lparr>result = Inr PyNone,
      arg_after = PyInstance (PyClass 7 (Some (ModStr ''sympy.sets.sets'')) ''Interval''
        [ClassT 6] [ClassT 6, ClassT 5, ObjectT] None) Opaque,
      state_after =
        \<lparr>sys_modules = [''sympy'' \<mapsto> PyModule (Class (ClassT 0))],
         finder_sympy = ImportRun (Some (PyModule (Class (ClassT 0)))) []\<rparr>\<rparr>"
  by (simp add: is_sympy_expession_def import_sympy_def isinstance_def actual_fqn_def
      re_match_def SYMPY_RE_def lits_def newline_def)




text \<open>
  C3. For every object and every literal string pattern \<open>p\<close>, \<^verbatim>\<open>is_type(obj, p)\<close> is
  true exactly when \<open>p\<close> equals, character by character, the type's module name, a dot
  and the type's unqualified name. (A \<^verbatim>\<open>__module__\<close> that is \<^verbatim>\<open>None\<close> is formatted as
  \<^verbatim>\<open>None\<close>; when the type has no \<^verbatim>\<open>__module__\<close> there is no FQN and the call raises.)
\<close>

theorem is_type_literal:
  "is_type obj (PatStr p) =
     (case type_module obj of
        Inl e \<Rightarrow> Inl e
      | Inr m \<Rightarrow> Inr (p = format_s m @ ''.'' @ type_name obj))"
  by (simp add: actual_fqn_def split: sum.splits)

theorem is_type_literal_witness:
  "is_type (PyInstance (PyClass 1 (Some (ModStr ''matplotlib.figure'')) ''Figure'' [ObjectT] [ObjectT] None) Opaque)
     (PatStr ''matplotlib.figure.Figure'') = Inr True
   \<and> is_type (PyInstance (PyClass 1 (Some (ModStr ''matplotlib.figure'')) ''Figure'' [ObjectT] [ObjectT] None) Opaque)
     (PatStr ''matplotlib.figure.figure'') = Inr False"
  using is_type_literal [of "PyInstance (PyClass 1 (Some (ModStr ''matplotlib.figure'')) ''Figure'' [ObjectT] [ObjectT] None) Opaque"
      "''matplotlib.figure.Figure''"]
    is_type_literal [of "PyInstance (PyClass 1 (Some (ModStr ''matplotlib.figure'')) ''Figure'' [ObjectT] [ObjectT] None) Opaque"
      "''matplotlib.figure.figure''"]
  by (simp add: actual_fqn_def)

text \<open>
  C4. For every object whose FQN does not start with \<^verbatim>\<open>sympy\<close>, \<^verbatim>\<open>is_sympy_expession\<close>
  returns \<^verbatim>\<open>False\<close> from the prefilter: in every interpreter state, and leaving the state
  as it was, so the import is not reached. (Nor is it reached for an object whose type
  has no FQN: the prefilter raises.)
\<close>

theorem sympy_prefilter_rejects:
  "(actual_fqn obj = Inr s \<and> \<not> prefix ''sympy'' s \<longrightarrow>
      is_sympy_expession st obj
        = \<lparr>result = Inr (PyBool False), arg_after = obj, state_after = st\<rparr>)
   \<and> (actual_fqn obj = Inl e \<longrightarrow>
      is_sympy_expession st obj = \<lparr>result = Inl e, arg_after = obj, state_after = st\<rparr>)"
  using sympy_re_prefix [of s] by (auto simp: is_sympy_expession_def)

theorem sympy_prefilter_rejects_witness:
  "is_sympy_expession
     \<lparr>sys_modules = Map.empty, finder_sympy = ImportRun (Some (PyModule (Class (ClassT 0)))) []\<rparr>
     (PyList [PyStr ''sympy''])
   = \<lparr>result = Inr (PyBool False), arg_after = PyList [PyStr ''sympy''],
      state_after =
        \<lparr>sys_modules = Map.empty, finder_sympy = ImportRun (Some (PyModule (Class (ClassT 0)))) []\<rparr>\<rparr>
   \<and> is_sympy_expession
     \<lparr>sys_modules = Map.empty, finder_sympy = ImportRun (Some (PyModule (Class (ClassT 0)))) []\<rparr>
     (PyInstance (PyClass 1 None ''X'' [ObjectT] [ObjectT] None) Opaque)
   = \<lparr>result = Inl AttributeError,
      arg_after = PyInstance (PyClass 1 None ''X'' [ObjectT] [ObjectT] None) Opaque,
      state_after =
        \<lparr>sys_modules = Map.empty, finder_sympy = ImportRun (Some (PyModule (Class (ClassT 0)))) []\<rparr>\<rparr>"
proof -
  have a: "actual_fqn (PyList [PyStr ''sympy'']) = Inr ''builtins.list''"
    by (simp add: builtin_fqn)
  have b: "\<not> prefix ''sympy'' ''builtins.list''"
    by simp
  have c: "actual_fqn (PyInstance (PyClass 1 None ''X'' [ObjectT] [ObjectT] None) Opaque)
      = Inl AttributeError"
    by (simp add: actual_fqn_def)
  from a b c
    sympy_prefilter_rejects [where obj = "PyList [PyStr ''sympy'']" and s = "''builtins.list''"]
    sympy_prefilter_rejects [where obj = "PyInstance (PyClass 1 None ''X'' [ObjectT] [ObjectT] None) Opaque"
      and e = AttributeError]
  show ?thesis by blast
qed



text \<open>
  C6. The claim: a dict with allowed keys only and at least one plotly value (or
  non-empty list of plotly objects as a value) is accepted. The values are tested in
  order, each by \<^verbatim>\<open>_is_plotly_obj\<close> first, so another value whose type has
  \<^verbatim>\<open>__module__ = None\<close> makes the call raise instead: here \<^verbatim>\<open>data\<close> is a list of one
  plotly object and \<^verbatim>\<open>config\<close> is such a value.
\<close>

theorem plotly_dict_raises_on_none_module:
  "set (dict_keys (PyDict
        [(PyStr ''data'', PyList [PyInstance (PyClass 1 (Some (ModStr ''plotly.graph_objs._scatter'')) ''Scatter''
            [ObjectT] [ObjectT] None) Opaque]),
         (PyStr ''config'', PyInstance (PyClass 2 (Some ModNone) ''X'' [ObjectT] [ObjectT] None) Opaque)]))
     \<subseteq> {PyStr ''config'', PyStr ''data'', PyStr ''frames'', PyStr ''layout''}
   \<and> list_of_plotly (PyList [PyInstance (PyClass 1 (Some (ModStr ''plotly.graph_objs._scatter'')) ''Scatter''
            [ObjectT] [ObjectT] None) Opaque])
   \<and> result (is_plotly_chart \<lparr>sys_modules = Map.empty, finder_sympy = ImportRun None []\<rparr>
       (PyDict
        [(PyStr ''data'', PyList [PyInstance (PyClass 1 (Some (ModStr ''plotly.graph_objs._scatter'')) ''Scatter''
            [ObjectT] [ObjectT] None) Opaque]),
         (PyStr ''config'', PyInstance (PyClass 2 (Some ModNone) ''X'' [ObjectT] [ObjectT] None) Opaque)]))
     = Inl AttributeError"
  by (simp add: is_plotly_chart_def is_list_of_plotly_objs_def is_plotly_obj_def builtin_fqn
      is_probably_plotly_dict_def dict_types_def py_in_def py_eq_str_def list_of_plotly_def
      in_plotly_namespace_def)

text \<open>
  C6, amended. For every dict whose keys are equal to \<^verbatim>\<open>config\<close>, \<^verbatim>\<open>data\<close>, \<^verbatim>\<open>frames\<close> or
  \<^verbatim>\<open>layout\<close>, whose values and elements of list values all have a type with a string as
  \<^verbatim>\<open>__module__\<close>, and one of whose values is in the plotly namespace or is a non-empty
  list of objects in the plotly namespace, \<^verbatim>\<open>is_plotly_chart\<close> returns \<^verbatim>\<open>True\<close>.
\<close>

theorem plotly_dict_accepted:
  assumes keys: "\<forall>k \<in> set (map fst kvs).
      str_value k \<in> {Some ''config'', Some ''data'', Some ''frames'', Some ''layout''}"
    and safe: "plotly_safe (PyDict kvs)"
    and v: "v \<in> set (map snd kvs)"
    and pv: "in_plotly_namespace v \<or> list_of_plotly v"
  shows "result (is_plotly_chart st (PyDict kvs)) = Inr (PyBool True)"
proof -
  from safe have s: "list_all (\<lambda>v. has_str_module v \<and> str_modules_in_list v) (map snd kvs)"
    by simp
  from v have ne: "kvs \<noteq> []" by auto
  from keys have k: "list_all (\<lambda>k. py_in k [''config'', ''data'', ''frames'', ''layout'']) (map fst kvs)"
    unfolding list_all_iff py_in_allowed by blast
  from v pv have e: "list_ex in_plotly_namespace (map snd kvs) \<or> list_ex list_of_plotly (map snd kvs)"
    unfolding list_ex_iff by blast
  from ne k e have "is_probably_plotly_dict (PyDict kvs) = Inr True"
    by (simp only: is_probably_plotly_dict_str [OF s] simp_thms)
  then show ?thesis by (simp add: dict_plotly)
qed

theorem plotly_dict_accepted_witness:
  "result (is_plotly_chart \<lparr>sys_modules = Map.empty, finder_sympy = ImportRun None []\<rparr>
      (PyDict
        [(PyStr ''config'', PyInstance (PyClass 1 (Some (ModStr ''plotly.graph_objs._scatter'')) ''Scatter''
            [ObjectT] [ObjectT] None) Opaque)]))
     = Inr (PyBool True)"
  using plotly_dict_accepted [of
      "[(PyStr ''config'', PyInstance (PyClass 1 (Some (ModStr ''plotly.graph_objs._scatter'')) ''Scatter''
            [ObjectT] [ObjectT] None) Opaque)]"
      "PyInstance (PyClass 1 (Some (ModStr ''plotly.graph_objs._scatter'')) ''Scatter''
            [ObjectT] [ObjectT] None) Opaque"
      "\<lparr>sys_modules = Map.empty, finder_sympy = ImportRun None []\<rparr>"]
  by (simp add: has_str_module_def in_plotly_namespace_def)

text \<open>
  C7. \<^verbatim>\<open>is_keras_model\<close> is true exactly when the FQN of the object's type is one of the
  four strings (and raises when the type has no FQN). The bases and ancestors of the
  type play no part: two objects whose types have the same \<^verbatim>\<open>__module__\<close> and
  \<^verbatim>\<open>__name__\<close> get the same answer, so an instance of a subclass with an FQN of its own
  is rejected.
\<close>

theorem is_keras_model_exact:
  "result (is_keras_model st obj) =
     (case actual_fqn obj of
        Inl e \<Rightarrow> Inl e
      | Inr s \<Rightarrow> Inr (PyBool
          (s = ''keras.engine.sequential.Sequential''
           \<or> s = ''keras.engine.training.Model''
           \<or> s = ''tensorflow.python.keras.engine.sequential.Sequential''
           \<or> s = ''tensorflow.python.keras.engine.training.Model'')))
   \<and> result (is_keras_model st (PyInstance (PyClass i m n bs anc f) w))
     = result (is_keras_model st' (PyInstance (PyClass i' m n bs' anc' f') w'))"
proof -
  have r: "result (is_keras_model st obj) =
     (case actual_fqn obj of
        Inl e \<Rightarrow> Inl e
      | Inr s \<Rightarrow> Inr (PyBool
          (s = ''keras.engine.sequential.Sequential''
           \<or> s = ''keras.engine.training.Model''
           \<or> s = ''tensorflow.python.keras.engine.sequential.Sequential''
           \<or> s = ''tensorflow.python.keras.engine.training.Model'')))" for st obj
  proof (cases "actual_fqn obj")
    case (Inl e)
    then show ?thesis by (simp add: is_keras_model_def)
  next
    case (Inr s)
    then show ?thesis by (simp add: is_keras_model_def) blast
  qed
  have "actual_fqn (PyInstance (PyClass i m n bs anc f) w)
      = actual_fqn (PyInstance (PyClass i' m n bs' anc' f') w')"
    by (cases m) (simp_all add: actual_fqn_def)
  then have "result (is_keras_model st (PyInstance (PyClass i m n bs anc f) w))
      = result (is_keras_model st' (PyInstance (PyClass i' m n bs' anc' f') w'))"
    by (simp only: r)
  with r show ?thesis by (simp only: simp_thms)
qed

theorem is_keras_model_exact_witness:
  "result (is_keras_model \<lparr>sys_modules = Map.empty, finder_sympy = ImportRun None []\<rparr>
     (PyInstance (PyClass 1 (Some (ModStr ''tensorflow.python.keras.engine.training'')) ''Model''
        [ClassT 0] [ClassT 0, ObjectT] None) Opaque)) = Inr (PyBool True)
   \<and> result (is_keras_model \<lparr>sys_modules = Map.empty, finder_sympy = ImportRun None []\<rparr>
     (PyInstance (PyClass 2 (Some (ModStr ''myapp.models'')) ''MyModel''
        [ClassT 1] [ClassT 1, ClassT 0, ObjectT] None) Opaque)) = Inr (PyBool False)"
  using is_keras_model_exact [of "\<lparr>sys_modules = Map.empty, finder_sympy = ImportRun None []\<rparr>"
      "PyInstance (PyClass 1 (Some (ModStr ''tensorflow.python.keras.engine.training'')) ''Model''
        [ClassT 0] [ClassT 0, ObjectT] None) Opaque"]
    is_keras_model_exact [of "\<lparr>sys_modules = Map.empty, finder_sympy = ImportRun None []\<rparr>"
      "PyInstance (PyClass 2 (Some (ModStr ''myapp.models'')) ''MyModel''
        [ClassT 1] [ClassT 1, ClassT 0, ObjectT] None) Opaque"]
  by (simp add: actual_fqn_def)




text \<open>
  C9. \<^verbatim>\<open>_is_list_of_plotly_objs\<close> is \<^verbatim>\<open>False\<close> for every object whose type is not exactly
  \<^verbatim>\<open>list\<close>. For non-empty \<open>xs\<close> whose elements are all in the plotly namespace, the list
  of \<open>xs\<close> is accepted by \<^verbatim>\<open>is_plotly_chart\<close>, the tuple of \<open>xs\<close> is rejected, and an
  instance of any other class holding \<open>xs\<close> (a subclass of \<^verbatim>\<open>list\<close>, another sequence) is
  rejected by the sequence branch; \<^verbatim>\<open>is_plotly_chart\<close> accepts such an instance only when
  the FQN of its type is that of the plotly \<^verbatim>\<open>Figure\<close>.
\<close>

theorem sequence_branch_exact_list:
  "(type_ident obj \<noteq> ListT \<longrightarrow> is_list_of_plotly_objs obj = Inr False)
   \<and> (xs \<noteq> [] \<and> list_all in_plotly_namespace xs \<longrightarrow>
        result (is_plotly_chart st (PyList xs)) = Inr (PyBool True)
        \<and> result (is_plotly_chart st (PyTuple xs)) = Inr (PyBool False)
        \<and> is_list_of_plotly_objs (PyInstance c (Items xs)) = Inr False
        \<and> result (is_plotly_chart st (PyInstance c (Items xs))) =
            (case actual_fqn (PyInstance c (Items xs)) of
               Inl e \<Rightarrow> Inl e
             | Inr s \<Rightarrow> Inr (PyBool (s = ''plotly.graph_objs._figure.Figure''))))"
proof -
  have "result (is_plotly_chart st (PyList xs)) = Inr (PyBool True)"
    if "xs \<noteq> []" "list_all in_plotly_namespace xs"
  proof -
    from that(2) have "list_all has_str_module xs"
      by (induction xs) (auto simp: in_plotly_namespace_str)
    from list_plotly_str [OF this] that show ?thesis by simp
  qed
  moreover have "is_list_of_plotly_objs (PyInstance c (Items xs)) = Inr False"
    by (simp add: not_list_not_list_of_plotly)
  ultimately show ?thesis
    using not_list_not_list_of_plotly [of obj] tuple_not_plotly [of st xs]
      instance_plotly [of st c "Items xs"] by blast
qed

theorem sequence_branch_exact_list_witness:
  "is_list_of_plotly_objs (PyTuple [PyInstance (PyClass 1 (Some (ModStr ''plotly.graph_objs._scatter'')) ''Scatter''
       [ObjectT] [ObjectT] None) Opaque]) = Inr False
   \<and> result (is_plotly_chart \<lparr>sys_modules = Map.empty, finder_sympy = ImportRun None []\<rparr>
       (PyList [PyInstance (PyClass 1 (Some (ModStr ''plotly.graph_objs._scatter'')) ''Scatter''
       [ObjectT] [ObjectT] None) Opaque])) = Inr (PyBool True)
   \<and> result (is_plotly_chart \<lparr>sys_modules = Map.empty, finder_sympy = ImportRun None []\<rparr>
       (PyTuple [PyInstance (PyClass 1 (Some (ModStr ''plotly.graph_objs._scatter'')) ''Scatter''
       [ObjectT] [ObjectT] None) Opaque])) = Inr (PyBool False)
   \<and> result (is_plotly_chart \<lparr>sys_modules = Map.empty, finder_sympy = ImportRun None []\<rparr>
       (PyInstance (PyClass 9 (Some (ModStr ''myapp'')) ''TraceList'' [ListT] [ListT, ObjectT] None)
         (Items [PyInstance (PyClass 1 (Some (ModStr ''plotly.graph_objs._scatter'')) ''Scatter''
          [ObjectT] [ObjectT] None) Opaque]))) = Inr (PyBool False)"
  using sequence_branch_exact_list [of
      "PyTuple [PyInstance (PyClass 1 (Some (ModStr ''plotly.graph_objs._scatter'')) ''Scatter''
          [ObjectT] [ObjectT] None) Opaque]"
      "[PyInstance (PyClass 1 (Some (ModStr ''plotly.graph_objs._scatter'')) ''Scatter''
          [ObjectT] [ObjectT] None) Opaque]"
      "\<lparr>sys_modules = Map.empty, finder_sympy = ImportRun None []\<rparr>"
      "PyClass 9 (Some (ModStr ''myapp'')) ''TraceList'' [ListT] [ListT, ObjectT] None"]
  by (simp add: in_plotly_namespace_def actual_fqn_def)

text \<open>
  C10. \<^verbatim>\<open>is_namedtuple\<close> is true exactly when \<^verbatim>\<open>tuple\<close> is the only base of the object's
  type, the type has a \<^verbatim>\<open>_fields\<close> attribute that is a tuple, and the type of every field
  is named \<^verbatim>\<open>str\<close>. Only the name of the field's type is compared, so a field of any type
  named \<^verbatim>\<open>str\<close> passes; and the result is false when \<^verbatim>\<open>_fields\<close> exists and is not a
  tuple.
\<close>

theorem is_namedtuple_fields:
  "result (is_namedtuple st x) =
     Inr (PyBool (type_bases x = [TupleT]
        \<and> (\<exists>f. type_fields x = Some f \<and> isinstance f TupleT
              \<and> list_all (\<lambda>n. type_name n = ''str'') (iter_items f))))
   \<and> (type_bases x = [TupleT] \<and> type_fields x = Some f \<and> isinstance f TupleT
        \<and> list_all (\<lambda>n. type_name n = ''str'') (iter_items f)
      \<longrightarrow> result (is_namedtuple st x) = Inr (PyBool True))
   \<and> (type_fields x = Some f \<and> \<not> isinstance f TupleT
      \<longrightarrow> result (is_namedtuple st x) = Inr (PyBool False))"
  by (simp add: namedtuple_result)

theorem is_namedtuple_fields_witness:
  "result (is_namedtuple \<lparr>sys_modules = Map.empty, finder_sympy = ImportRun None []\<rparr>
     (PyInstance (PyClass 3 (Some (ModStr ''__main__'')) ''Point'' [TupleT] [TupleT, ObjectT]
        (Some (PyTuple [PyStr ''x'',
           PyInstance (PyClass 4 (Some (ModStr ''future.types.newstr'')) ''str'' [ObjectT] [ObjectT] None)
             (Chars ''y'')])))
        (Items []))) = Inr (PyBool True)
   \<and> result (is_namedtuple \<lparr>sys_modules = Map.empty, finder_sympy = ImportRun None []\<rparr>
     (PyInstance (PyClass 3 (Some (ModStr ''__main__'')) ''Point'' [TupleT] [TupleT, ObjectT]
        (Some (PyList [PyStr ''x'', PyStr ''y''])))
        (Items []))) = Inr (PyBool False)
   \<and> result (is_namedtuple \<lparr>sys_modules = Map.empty, finder_sympy = ImportRun None []\<rparr>
     (PyInstance (PyClass 3 (Some (ModStr ''__main__'')) ''Point'' [TupleT] [TupleT, ObjectT]
        (Some (PyTuple [PyInstance (PyClass 5 (Some (ModStr ''builtins'')) ''int'' [ObjectT] [ObjectT] None) Opaque,
           PyInstance (PyClass 5 (Some (ModStr ''builtins'')) ''int'' [ObjectT] [ObjectT] None) Opaque])))
        (Items []))) = Inr (PyBool False)
   \<and> result (is_namedtuple \<lparr>sys_modules = Map.empty, finder_sympy = ImportRun None []\<rparr>
     (PyInstance (PyClass 6 (Some (ModStr ''__main__'')) ''Record'' [ObjectT] [ObjectT]
        (Some (PyTuple [PyStr ''x'', PyStr ''y''])))
        Opaque)) = Inr (PyBool False)"
  using is_namedtuple_fields [of "\<lparr>sys_modules = Map.empty, finder_sympy = ImportRun None []\<rparr>"
      "PyInstance (PyClass 3 (Some (ModStr ''__main__'')) ''Point'' [TupleT] [TupleT, ObjectT]
        (Some (PyTuple [PyStr ''x'',
           PyInstance (PyClass 4 (Some (ModStr ''future.types.newstr'')) ''str'' [ObjectT] [ObjectT] None)
             (Chars ''y'')])))
        (Items [])"
      "PyTuple [PyStr ''x'',
           PyInstance (PyClass 4 (Some (ModStr ''future.types.newstr'')) ''str'' [ObjectT] [ObjectT] None)
             (Chars ''y'')]"]
    is_namedtuple_fields [of "\<lparr>sys_modules = Map.empty, finder_sympy = ImportRun None []\<rparr>"
      "PyInstance (PyClass 3 (Some (ModStr ''__main__'')) ''Point'' [TupleT] [TupleT, ObjectT]
        (Some (PyList [PyStr ''x'', PyStr ''y''])))
        (Items [])"
      "PyList [PyStr ''x'', PyStr ''y'']"]
    is_namedtuple_fields [of "\<lparr>sys_modules = Map.empty, finder_sympy = ImportRun None []\<rparr>"
      "PyInstance (PyClass 3 (Some (ModStr ''__main__'')) ''Point'' [TupleT] [TupleT, ObjectT]
        (Some (PyTuple [PyInstance (PyClass 5 (Some (ModStr ''builtins'')) ''int'' [ObjectT] [ObjectT] None) Opaque,
           PyInstance (PyClass 5 (Some (ModStr ''builtins'')) ''int'' [ObjectT] [ObjectT] None) Opaque])))
        (Items [])"]
    is_namedtuple_fields [of "\<lparr>sys_modules = Map.empty, finder_sympy = ImportRun None []\<rparr>"
      "PyInstance (PyClass 6 (Some (ModStr ''__main__'')) ''Record'' [ObjectT] [ObjectT]
        (Some (PyTuple [PyStr ''x'', PyStr ''y''])))
        Opaque"]
  by (simp add: isinstance_def)

end
